theory Spec2Isabelle
  imports Main
begin

section \<open>Python values used by \<open>src/lib/parsers.py\<close>\<close>

text \<open>
  The F4 functions of \<open>parsers.py\<close> work on Python strings and unbounded integers.
  Strings are \<open>char list\<close>, positions are \<open>int\<close>, a raised exception is the left
  summand of a sum type. The \<open>print\<close> statements of the source only write to standard
  output and are left out.
\<close>

datatype error = IndexError | ValueError | EvalError | TypeError

text \<open>\<open>text[i]\<close>: negative indices count from the end, out of range raises.\<close>

definition idx :: "string \<Rightarrow> int \<Rightarrow> error + char" where
  "idx s i =
     (let n = int (length s); j = (if i < 0 then i + n else i)
      in if 0 \<le> j \<and> j < n then Inr (s ! nat j) else Inl IndexError)"

text \<open>A slice bound: negative bounds count from the end, then the bound is clamped.\<close>

definition bound :: "string \<Rightarrow> int \<Rightarrow> nat" where
  "bound s i =
     (let n = int (length s); j = (if i < 0 then i + n else i)
      in if j < 0 then 0 else if n < j then length s else nat j)"

text \<open>\<open>text[a:b]\<close>, \<open>text[a:]\<close> and \<open>text[:b]\<close>.\<close>

definition slice :: "string \<Rightarrow> int \<Rightarrow> int \<Rightarrow> string" where
  "slice s a b = take (bound s b - bound s a) (drop (bound s a) s)"

definition slice_from :: "string \<Rightarrow> int \<Rightarrow> string" where
  "slice_from s a = drop (bound s a) s"

definition slice_to :: "string \<Rightarrow> int \<Rightarrow> string" where
  "slice_to s b = take (bound s b) s"

text \<open>\<open>len(text)\<close>.\<close>

definition len :: "string \<Rightarrow> int" where
  "len s = int (length s)"

text \<open>\<open>text.startswith(sub)\<close> and \<open>text.find(sub)\<close> (\<open>-1\<close> when \<open>sub\<close> does not occur).\<close>

fun startswith :: "string \<Rightarrow> string \<Rightarrow> bool" where
  "startswith s [] = True"
| "startswith [] (c # sub) = False"
| "startswith (d # s) (c # sub) = (d = c \<and> startswith s sub)"

fun find :: "string \<Rightarrow> string \<Rightarrow> int" where
  "find [] sub = (if sub = [] then 0 else -1)"
| "find (c # s) sub =
     (if startswith (c # s) sub then 0
      else (let r = find s sub in if r < 0 then -1 else r + 1))"

text \<open>\<open>text.count(c)\<close> for a one-character string \<open>c\<close>.\<close>

definition count :: "string \<Rightarrow> char \<Rightarrow> int" where
  "count s c = int (length (filter (\<lambda>d. d = c) s))"

text \<open>\<open>str(n)\<close> for an integer \<open>n\<close>.\<close>

definition digit :: "nat \<Rightarrow> char" where
  "digit d = char_of (48 + d)"

fun str_nat :: "nat \<Rightarrow> string" where
  "str_nat n = (if n < 10 then [digit n] else str_nat (n div 10) @ [digit (n mod 10)])"

declare str_nat.simps [simp del]

definition str :: "int \<Rightarrow> string" where
  "str n = (if n < 0 then CHR ''-'' # str_nat (nat (- n)) else str_nat (nat n))"

section \<open>The bracket scanner: \<open>findpos\<close> and \<open>findcolon\<close>\<close>

definition quote1 :: char where "quote1 = CHR 0x27"
definition quote2 :: char where "quote2 = CHR 0x22"

definition open_bracket :: "char list" where
  "open_bracket = [CHR ''('', CHR ''['', CHR ''{'']"

definition open_or_quote :: "char list" where
  "open_or_quote = [CHR ''('', CHR ''['', CHR ''{'', quote1, quote2]"

definition close_or_quote :: "char list" where
  "close_or_quote = [CHR '')'', CHR '']'', CHR ''}'', quote1, quote2]"

text \<open>
  The inner loop of both scanners,
  \<^verbatim>\<open>while bracketlevel > 0 and pos < len(text): ... pos += 1\<close>,
  from a bracket level and a position to the level and position it stops at.
\<close>

function inner_scan :: "string \<Rightarrow> int \<Rightarrow> nat \<Rightarrow> int \<times> nat" where
  "inner_scan text bracketlevel pos =
     (if bracketlevel > 0 \<and> pos < length text then
        (if text ! pos \<in> set open_or_quote then inner_scan text (bracketlevel + 1) (pos + 1)
         else if text ! pos \<in> set close_or_quote then inner_scan text (bracketlevel - 1) (pos + 1)
         else inner_scan text bracketlevel (pos + 1))
      else (bracketlevel, pos))"
  by pat_completeness auto
termination
  by (relation "measure (\<lambda>(text, bracketlevel, pos). length text - pos)") auto

declare inner_scan.simps [simp del]

lemma inner_scan_pos: "inner_scan s b pos = (b', pos') \<Longrightarrow> pos \<le> pos'"
proof (induction s b pos rule: inner_scan.induct)
  case (1 s b pos)
  from "1.prems" have unfolded:
    "(if b > 0 \<and> pos < length s then
        (if s ! pos \<in> set open_or_quote then inner_scan s (b + 1) (pos + 1)
         else if s ! pos \<in> set close_or_quote then inner_scan s (b - 1) (pos + 1)
         else inner_scan s b (pos + 1))
      else (b, pos)) = (b', pos')"
    by (simp add: inner_scan.simps [of s b pos])
  with "1.IH" show ?case
    by (fastforce split: if_splits)
qed

text \<open>The outer loop of \<open>findpos\<close>, from a bracket level and a position.\<close>

function findpos_loop :: "string \<Rightarrow> int \<Rightarrow> nat \<Rightarrow> string" where
  "findpos_loop text bracketlevel pos =
     (if pos < length text then
        (if text ! pos = CHR '','' then take pos text
         else if text ! pos \<in> set open_bracket then
           (case inner_scan text (bracketlevel + 1) pos of
              (bracketlevel', pos') \<Rightarrow> findpos_loop text bracketlevel' (pos' + 1))
         else findpos_loop text bracketlevel (pos + 1))
      else text)"
  by pat_completeness auto
termination
  by (relation "measure (\<lambda>(text, bracketlevel, pos). length text - pos)")
     (auto dest!: inner_scan_pos [OF sym])

declare findpos_loop.simps [simp del]

definition findpos :: "string \<Rightarrow> string" where
  "findpos text = findpos_loop text 0 0"

text \<open>
  The outer loop of \<open>findcolon\<close> for one of the two strings: the offset stored in
  \<open>colons[i_xy]\<close> (\<open>-1\<close> when the loop ends without \<open>break\<close>) and the bracket level the
  loop leaves behind. \<open>bracketlevel\<close> is set to 0 once, before the \<open>for\<close> loop, so the
  second string starts at the level the first one ended with.
\<close>

function findcolon_loop :: "string \<Rightarrow> int \<Rightarrow> nat \<Rightarrow> int \<times> int" where
  "findcolon_loop text bracketlevel pos =
     (if pos < length text then
        (if text ! pos = CHR '':'' then (int pos, bracketlevel)
         else if text ! pos \<in> set open_bracket then
           (case inner_scan text (bracketlevel + 1) pos of
              (bracketlevel', pos') \<Rightarrow> findcolon_loop text bracketlevel' (pos' + 1))
         else findcolon_loop text bracketlevel (pos + 1))
      else (-1, bracketlevel))"
  by pat_completeness auto
termination
  by (relation "measure (\<lambda>(text, bracketlevel, pos). length text - pos)")
     (auto dest!: inner_scan_pos [OF sym])

declare findcolon_loop.simps [simp del]

text \<open>
  \<open>findcolon(strXY)\<close>. Both callers pass the two-element list \<open>[str1, str2]\<close>, which is a
  pair here, and so is the two-element result \<open>colons\<close>.
\<close>

definition findcolon :: "string \<times> string \<Rightarrow> int \<times> int" where
  "findcolon strXY =
     (case findcolon_loop (fst strXY) 0 0 of
        (colon0, bracketlevel) \<Rightarrow>
          (case findcolon_loop (snd strXY) bracketlevel 0 of
             (colon1, bracketlevel') \<Rightarrow> (colon0, colon1)))"

section \<open>The builtins \<open>int\<close> and \<open>eval\<close>\<close>

text \<open>
  \<open>int(text)\<close> and \<open>eval(temp, {})\<close> are Python's, not this repository's, and \<open>eval\<close>
  accepts every Python expression. They are parameters of the model: \<open>py_int\<close> and
  \<open>py_eval\<close> give \<open>None\<close> where the builtin raises, \<open>eval\<close> returns a value of some
  type \<open>'v\<close>, and \<open>py_add_str v n\<close> is \<open>str(v + n)\<close> for such a value and an integer
  (which raises when \<open>v\<close> is not a number).
\<close>

record 'v builtins =
  py_int :: "string \<Rightarrow> int option"
  py_eval :: "string \<Rightarrow> 'v option"
  py_add_str :: "'v \<Rightarrow> int \<Rightarrow> error + string"

section \<open>The classifier \<open>testXorYabsrel\<close>\<close>

text \<open>
  \<^verbatim>\<open>temp = text[:text.find(xory)]; temp += '0'; temp += text[text.find(xory) + 1:]\<close>
\<close>

definition zeroed :: "string \<Rightarrow> string \<Rightarrow> string" where
  "zeroed xory text =
     slice_to text (find text xory) @ ''0'' @ slice_from text (find text xory + 1)"

definition testXorYabsrel :: "'v builtins \<Rightarrow> string \<Rightarrow> string \<Rightarrow> string" where
  "testXorYabsrel B xory text =
     (case py_int B text of
        Some temp \<Rightarrow> ''A'' @ xory
      | None \<Rightarrow>
          (if find text xory \<ge> 0 then
             (case py_eval B (zeroed xory text) of
                Some val \<Rightarrow> ''R'' @ xory
              | None \<Rightarrow> ''C'' @ xory)
           else ''-''))"

section \<open>The rewriter: \<open>makeXorYrel\<close>, \<open>makeXorYabs\<close>, \<open>makeXorYrelorabs\<close>\<close>

definition makeXorYrel :: "'v builtins \<Rightarrow> string \<Rightarrow> string \<Rightarrow> int \<times> int \<Rightarrow> error + string" where
  "makeXorYrel B xory text posCursor =
     (let posCursorXY = (if xory = ''X'' then fst posCursor else snd posCursor)
      in case py_int B text of
           None \<Rightarrow> Inl ValueError
         | Some n \<Rightarrow>
             (let diff = n - posCursorXY
              in if diff > 0 then Inr (xory @ '' + '' @ str diff)
                 else Inr (xory @ '' - '' @ str (- diff))))"

definition makeXorYabs :: "'v builtins \<Rightarrow> string \<Rightarrow> string \<Rightarrow> int \<times> int \<Rightarrow> error + string" where
  "makeXorYabs B xory text posCursor =
     (let posCursorXY = (if xory = ''X'' then fst posCursor else snd posCursor)
      in case py_eval B (zeroed xory text) of
           None \<Rightarrow> Inl EvalError
         | Some val \<Rightarrow> py_add_str B val posCursorXY)"

definition makeXorYrelorabs ::
  "'v builtins \<Rightarrow> string \<Rightarrow> string \<Rightarrow> string \<Rightarrow> int \<times> int \<Rightarrow> error + string" where
  "makeXorYrelorabs B xory relorabs text posCursor =
     (if relorabs = ''rel'' then makeXorYrel B xory text posCursor
      else if relorabs = ''abs'' then makeXorYabs B xory text posCursor
      else Inr text)"

section \<open>The orchestrator \<open>OnF4\<close>\<close>

definition separators :: "char list" where
  "separators =
     [CHR '' '', CHR 0x09, CHR ''+'', CHR ''-'', CHR ''*'', CHR ''/'', CHR ''%'', CHR ''<'',
      CHR ''>'', CHR ''&'', CHR ''|'', CHR ''^'', CHR ''~'', CHR ''='', CHR ''!'', CHR ''('',
      CHR '')'', CHR ''['', CHR '']'', CHR ''{'', CHR ''}'', CHR ''@'', CHR '','', CHR '':'',
      CHR ''.'', CHR 0x60, CHR '';'']"

text \<open>
  What the search leaves in the variables that the rewriting step reads, in the order of
  the source's \<^verbatim>\<open>print abs1, abs2, str1, str2, posX, posY\<close>.
\<close>

type_synonym located = "string \<times> string \<times> string \<times> string \<times> int \<times> int"

text \<open>What \<open>OnF4\<close> returns: \<open>None\<close> (by falling off its end) or the pair \<open>(text, pos)\<close>.\<close>

datatype retval = ReturnsNone | ReturnsPair string int

subsection \<open>The search from the cursor\<close>

text \<open>\<^verbatim>\<open>while text[temp] in [' ', chr(9)] and temp > 0: temp -= 1\<close>\<close>

function skip_blanks_back :: "string \<Rightarrow> int \<Rightarrow> error + int" where
  "skip_blanks_back text temp =
     (case idx text temp of
        Inl e \<Rightarrow> Inl e
      | Inr c \<Rightarrow>
          if c \<in> set [CHR '' '', CHR 0x09] \<and> temp > 0 then skip_blanks_back text (temp - 1)
          else Inr temp)"
  by pat_completeness auto
termination
  by (relation "measure (\<lambda>(text, temp). nat temp)") auto

declare skip_blanks_back.simps [simp del]

text \<open>\<^verbatim>\<open>text[temp] == 'S' and (temp == 0 or text[temp-1] in separators)\<close>\<close>

definition starts_reference :: "string \<Rightarrow> int \<Rightarrow> error + bool" where
  "starts_reference text temp =
     (case idx text temp of
        Inl e \<Rightarrow> Inl e
      | Inr c \<Rightarrow>
          if c = CHR ''S'' then
            (if temp = 0 then Inr True
             else (case idx text (temp - 1) of
                     Inl e \<Rightarrow> Inl e
                   | Inr d \<Rightarrow> Inr (d \<in> set separators)))
          else Inr False)"

text \<open>\<^verbatim>\<open>while text[temp] != ']' and temp < len(text): temp += 1\<close>\<close>

function seek_close :: "string \<Rightarrow> int \<Rightarrow> error + int" where
  "seek_close text temp =
     (case idx text temp of
        Inl e \<Rightarrow> Inl e
      | Inr c \<Rightarrow>
          if c \<noteq> CHR '']'' \<and> temp < len text then seek_close text (temp + 1)
          else Inr temp)"
  by pat_completeness auto
termination
  by (relation "measure (\<lambda>(text, temp). nat (len text - temp))") (auto simp: len_def)

declare seek_close.simps [simp del]

text \<open>
  The body of \<^verbatim>\<open>if text[temp] == ']':\<close> (source lines 338 to 366): the two components,
  their offsets and their classes, for the \<open>[\<close> that ends before \<open>posX\<close> and the \<open>]\<close> at
  \<open>temp\<close>.
\<close>

definition inside_found :: "'v builtins \<Rightarrow> string \<Rightarrow> int \<Rightarrow> int \<Rightarrow> int \<Rightarrow> located" where
  "inside_found B text posins posX temp =
     (let str1 = findpos (slice text posX temp);
          posY = posX + len str1 + 1;
          str2 = findpos (slice text posY temp);
          colons = findcolon (str1, str2)
      in if colons = (-1, -1) then
           (testXorYabsrel B ''X'' str1, testXorYabsrel B ''Y'' str2, str1, str2, posX, posY)
         else if posins \<le> posX + len str1 then
           (if fst colons = -1 then
              (testXorYabsrel B ''X'' str1, ''-'', str1, str2, posX, posY)
            else
              (let posY = posX + fst colons + 1;
                   str2 = slice_from str1 (fst colons + 1);
                   str1 = slice_to str1 (fst colons)
               in (testXorYabsrel B ''X'' str1, testXorYabsrel B ''X'' str2,
                   str1, str2, posX, posY)))
         else
           (if snd colons = -1 then
              (''-'', testXorYabsrel B ''Y'' str2, str1, str2, posX, posY)
            else
              (let posX = posY;
                   str1 = slice_to str2 (snd colons);
                   posY = posY + snd colons + 1;
                   str2 = slice_from str2 (snd colons + 1)
               in (testXorYabsrel B ''Y'' str1, testXorYabsrel B ''Y'' str2,
                   str1, str2, posX, posY))))"

text \<open>
  \<^verbatim>\<open>while posX > 1 and not(foundposin):\<close> (source lines 326 to 366). The loop may run
  forever, so it is a partial function: \<open>None\<close> is a run that never ends,
  \<open>Some (Inl e)\<close> a raised exception, \<open>Some (Inr None)\<close> the end of the loop with
  \<open>foundposin\<close> still false, \<open>Some (Inr (Some l))\<close> its end with \<open>foundposin\<close> true.
\<close>

partial_function (option) inside_loop ::
  "'v builtins \<Rightarrow> string \<Rightarrow> int \<Rightarrow> int \<Rightarrow> (error + located option) option" where
  "inside_loop B text posins posX =
     (if posX > 1 then
        (let posX = posX - 1
         in case idx text posX of
              Inl e \<Rightarrow> Some (Inl e)
            | Inr c \<Rightarrow>
                if c = CHR ''['' then
                  (let temp = posX - 1;
                       posX = posX + 1
                   in case skip_blanks_back text temp of
                        Inl e \<Rightarrow> Some (Inl e)
                      | Inr temp \<Rightarrow>
                          (case starts_reference text temp of
                             Inl e \<Rightarrow> Some (Inl e)
                           | Inr is_reference \<Rightarrow>
                               if is_reference then
                                 (case seek_close text posins of
                                    Inl e \<Rightarrow> Some (Inl e)
                                  | Inr temp \<Rightarrow>
                                      (case idx text temp of
                                         Inl e \<Rightarrow> Some (Inl e)
                                       | Inr d \<Rightarrow>
                                           if d = CHR '']'' then
                                             Some (Inr (Some (inside_found B text posins posX temp)))
                                           else inside_loop B text posins posX))
                               else inside_loop B text posins posX))
                else inside_loop B text posins posX)
      else Some (Inr None))"

declare inside_loop.simps [code]

subsection \<open>The search for the first reference\<close>

text \<open>\<^verbatim>\<open>while (text[posX] in [' ', chr(9), '[']) and (posX < len(text)): posX += 1\<close>\<close>

function skip_open :: "string \<Rightarrow> int \<Rightarrow> error + int" where
  "skip_open text posX =
     (case idx text posX of
        Inl e \<Rightarrow> Inl e
      | Inr c \<Rightarrow>
          if c \<in> set [CHR '' '', CHR 0x09, CHR ''[''] \<and> posX < len text then
            skip_open text (posX + 1)
          else Inr posX)"
  by pat_completeness auto
termination
  by (relation "measure (\<lambda>(text, posX). nat (len text - posX))") (auto simp: len_def)

declare skip_open.simps [simp del]

text \<open>
  The body of \<^verbatim>\<open>if text[posS + 1] in [' ', chr(9), '[']:\<close> (source lines 382 to 392).
\<close>

definition outside_found :: "'v builtins \<Rightarrow> string \<Rightarrow> int \<Rightarrow> located" where
  "outside_found B text posX =
     (let str1 = findpos (slice_from text posX);
          posY = posX + len str1 + 1;
          str2 = findpos (slice_from text posY)
      in (testXorYabsrel B ''X'' str1, testXorYabsrel B ''Y'' str2, str1, str2, posX, posY))"

text \<open>
  One pass through the body of the \<open>while\<close> loop of the first-reference search, once
  \<open>posS = text.find('S')\<close> is set (source lines 375 to 395): an exception, \<open>Some l\<close> when
  the pass ends in \<open>break\<close>, \<open>None\<close> when it ends without.
\<close>

definition outside_pass :: "'v builtins \<Rightarrow> string \<Rightarrow> int \<Rightarrow> error + located option" where
  "outside_pass B text posS =
     (case (if posS = 0 then Inr True
            else (case idx text (posS - 1) of
                    Inl e \<Rightarrow> Inl e
                  | Inr c \<Rightarrow> Inr (c \<in> set separators))) of
        Inl e \<Rightarrow> Inl e
      | Inr False \<Rightarrow> Inr None
      | Inr True \<Rightarrow>
          if count (slice_to text posS) quote2 mod 2 = 1
             \<or> count (slice_to text posS) quote1 mod 2 = 1 then Inr None
          else
            (case idx text (posS + 1) of
               Inl e \<Rightarrow> Inl e
             | Inr c \<Rightarrow>
                 if c \<in> set [CHR '' '', CHR 0x09, CHR ''[''] then
                   (case skip_open text (posS + 1) of
                      Inl e \<Rightarrow> Inl e
                    | Inr posX \<Rightarrow> Inr (Some (outside_found B text posX)))
                 else Inr None))"

text \<open>
  \<^verbatim>\<open>while text[posS+1:].find('S') >= 0:\<close> (source lines 371 to 395), with the same
  four outcomes as \<open>inside_loop\<close>; \<open>Some (Inr (Some l))\<close> is \<open>foundposout\<close> true.
\<close>

partial_function (option) outside_loop ::
  "'v builtins \<Rightarrow> string \<Rightarrow> int \<Rightarrow> (error + located option) option" where
  "outside_loop B text posS =
     (if find (slice_from text (posS + 1)) ''S'' \<ge> 0 then
        (let posS = find text ''S''
         in case outside_pass B text posS of
              Inl e \<Rightarrow> Some (Inl e)
            | Inr (Some l) \<Rightarrow> Some (Inr (Some l))
            | Inr None \<Rightarrow> outside_loop B text posS)
      else Some (Inr None))"

declare outside_loop.simps [code]

subsection \<open>The rewriting step\<close>

definition then_do :: "error + 'a \<Rightarrow> ('a \<Rightarrow> error + 'b) \<Rightarrow> error + 'b" where
  "then_do r f = (case r of Inl e \<Rightarrow> Inl e | Inr x \<Rightarrow> f x)"

text \<open>\<open>abs[1]\<close>, the axis name in a class such as \<open>'AX'\<close>, as a one-character string.\<close>

definition axis_of :: "string \<Rightarrow> error + string" where
  "axis_of cls = then_do (idx cls 1) (\<lambda>c. Inr [c])"

text \<open>
  The \<open>if\<close>/\<open>elif\<close> chain of source lines 402 to 420, giving the new \<open>text\<close>. The chain
  reads \<open>abs1[0]\<close> first and, whatever \<open>abs1[0]\<close> is, reads \<open>abs2[0]\<close> before any branch
  is taken, so both are read up front. Operands of \<open>+\<close> are evaluated left to right.
\<close>

definition rewrite :: "'v builtins \<Rightarrow> string \<Rightarrow> int \<times> int \<Rightarrow> located \<Rightarrow> error + string" where
  "rewrite B text posCursor l =
     (case l of (abs1, abs2, str1, str2, posX, posY) \<Rightarrow>
        then_do (idx abs1 0) (\<lambda>a1. then_do (idx abs2 0) (\<lambda>a2.
          if a1 = CHR ''A'' \<and> a2 = CHR ''A'' then
            then_do (axis_of abs1) (\<lambda>x1.
            then_do (makeXorYrelorabs B x1 ''rel'' str1 posCursor) (\<lambda>new1.
            then_do (idx text (posX + len str1)) (\<lambda>sep.
            then_do (axis_of abs2) (\<lambda>x2.
            then_do (makeXorYrelorabs B x2 ''rel'' str2 posCursor) (\<lambda>new2.
              Inr (slice_to text posX @ new1 @ [sep] @ new2
                   @ slice_from text (posY + len str2)))))))
          else if a1 = CHR ''R'' \<and> a2 = CHR ''R'' then
            then_do (axis_of abs2) (\<lambda>x2.
            then_do (makeXorYrelorabs B x2 ''abs'' str2 posCursor) (\<lambda>new2.
              Inr (slice_to text posY @ new2 @ slice_from text (posY + len str2))))
          else if a1 = CHR ''R'' \<and> a2 = CHR ''A'' then
            then_do (axis_of abs1) (\<lambda>x1.
            then_do (makeXorYrelorabs B x1 ''abs'' str1 posCursor) (\<lambda>new1.
            then_do (idx text (posX + len str1)) (\<lambda>sep.
            then_do (axis_of abs2) (\<lambda>x2.
            then_do (makeXorYrelorabs B x2 ''rel'' str2 posCursor) (\<lambda>new2.
              Inr (slice_to text posX @ new1 @ [sep] @ new2
                   @ slice_from text (posY + len str2)))))))
          else if a1 = CHR ''A'' \<and> a2 = CHR ''R'' then
            then_do (axis_of abs2) (\<lambda>x2.
            then_do (makeXorYrelorabs B x2 ''abs'' str2 posCursor) (\<lambda>new2.
              Inr (slice_to text posY @ new2 @ slice_from text (posY + len str2))))
          else if a1 = CHR ''A'' then
            then_do (axis_of abs1) (\<lambda>x1.
            then_do (makeXorYrelorabs B x1 ''rel'' str1 posCursor) (\<lambda>new1.
              Inr (slice_to text posX @ new1 @ slice_from text (posX + len str1))))
          else if a2 = CHR ''A'' then
            then_do (axis_of abs2) (\<lambda>x2.
            then_do (makeXorYrelorabs B x2 ''rel'' str2 posCursor) (\<lambda>new2.
              Inr (slice_to text posY @ new2 @ slice_from text (posY + len str2))))
          else if a1 = CHR ''R'' then
            then_do (axis_of abs1) (\<lambda>x1.
            then_do (makeXorYrelorabs B x1 ''abs'' str1 posCursor) (\<lambda>new1.
              Inr (slice_to text posX @ new1 @ slice_from text (posX + len str1))))
          else if a2 = CHR ''R'' then
            then_do (axis_of abs2) (\<lambda>x2.
            then_do (makeXorYrelorabs B x2 ''abs'' str2 posCursor) (\<lambda>new2.
              Inr (slice_to text posY @ new2 @ slice_from text (posY + len str2))))
          else Inr text)))"

text \<open>
  \<^verbatim>\<open>if foundposin or foundposout:\<close> (source lines 397 to 425): the rewriting step and
  the \<open>return\<close> that follows it.
\<close>

definition finish ::
  "'v builtins \<Rightarrow> string \<Rightarrow> int \<times> int \<Rightarrow> bool \<Rightarrow> located \<Rightarrow> error + retval" where
  "finish B text posCursor foundposin l =
     then_do (rewrite B text posCursor l) (\<lambda>text'.
       case l of (abs1, abs2, str1, str2, posX, posY) \<Rightarrow>
         if foundposin then Inr (ReturnsPair text' posX) else Inr (ReturnsPair text' 0))"

subsection \<open>The whole function\<close>

text \<open>
  The two searches of \<open>OnF4\<close> (source lines 321 to 395): which of \<open>foundposin\<close> and
  \<open>foundposout\<close> is set (\<open>True\<close> for \<open>foundposin\<close>) and what was found, or \<open>None\<close> when
  neither is.
\<close>

definition locate ::
  "'v builtins \<Rightarrow> string \<Rightarrow> int \<Rightarrow> (error + (bool \<times> located) option) option" where
  "locate B text posins =
     (case (if posins > 1 \<and> posins < len text then inside_loop B text posins posins
            else Some (Inr None)) of
        None \<Rightarrow> None
      | Some (Inl e) \<Rightarrow> Some (Inl e)
      | Some (Inr (Some l)) \<Rightarrow> Some (Inr (Some (True, l)))
      | Some (Inr None) \<Rightarrow>
          (case outside_loop B text (-1) of
             None \<Rightarrow> None
           | Some (Inl e) \<Rightarrow> Some (Inl e)
           | Some (Inr (Some l)) \<Rightarrow> Some (Inr (Some (False, l)))
           | Some (Inr None) \<Rightarrow> Some (Inr None)))"

text \<open>
  \<open>OnF4(text, posins, posCursor)\<close>: \<open>None\<close> when the call never returns, \<open>Some (Inl e)\<close>
  when it raises, \<open>Some (Inr v)\<close> when it returns \<open>v\<close>.
\<close>

definition OnF4 ::
  "'v builtins \<Rightarrow> string \<Rightarrow> int \<Rightarrow> int \<times> int \<Rightarrow> (error + retval) option" where
  "OnF4 B text posins posCursor =
     (case locate B text posins of
        None \<Rightarrow> None
      | Some (Inl e) \<Rightarrow> Some (Inl e)
      | Some (Inr None) \<Rightarrow> Some (Inr ReturnsNone)
      | Some (Inr (Some (foundposin, l))) \<Rightarrow> Some (finish B text posCursor foundposin l))"

section \<open>The builtins on integer literals and on sums of them\<close>

text \<open>
  On the texts that the rewriter itself produces the builtins are known: \<open>int\<close> on a
  decimal literal (blanks around it, a sign in front), \<open>eval\<close> on sums and differences
  of decimal literals (blanks between the tokens, a literal other than \<open>0\<close> not starting
  with \<open>0\<close>, which Python 2 reads as octal). \<open>int_literal\<close> and \<open>arith_eval\<close> give \<open>None\<close>
  on every other text, which they do not describe.
\<close>

definition is_digit :: "char \<Rightarrow> bool" where
  "is_digit c = (48 \<le> (of_char c :: nat) \<and> (of_char c :: nat) \<le> 57)"

definition is_space :: "char \<Rightarrow> bool" where
  "is_space c = (c \<in> set [CHR '' '', CHR 0x09, CHR 0x0A, CHR 0x0B, CHR 0x0C, CHR 0x0D])"

definition digits_val :: "string \<Rightarrow> nat" where
  "digits_val ds = foldl (\<lambda>a c. 10 * a + (of_char c - 48)) 0 ds"

definition strip :: "string \<Rightarrow> string" where
  "strip s = rev (dropWhile is_space (rev (dropWhile is_space s)))"

definition unsigned_literal :: "string \<Rightarrow> nat option" where
  "unsigned_literal ds = (if ds \<noteq> [] \<and> list_all is_digit ds then Some (digits_val ds) else None)"

definition int_literal :: "string \<Rightarrow> int option" where
  "int_literal s =
     (case strip s of
        [] \<Rightarrow> None
      | c # ds \<Rightarrow>
          if c = CHR ''-'' then map_option (\<lambda>n. - int n) (unsigned_literal ds)
          else if c = CHR ''+'' then map_option int (unsigned_literal ds)
          else map_option int (unsigned_literal (c # ds)))"

datatype token = Num nat | Plus | Minus

function tokens :: "string \<Rightarrow> token list option" where
  "tokens [] = Some []"
| "tokens (c # cs) =
     (if c = CHR '' '' \<or> c = CHR 0x09 then tokens cs
      else if c = CHR ''+'' then map_option ((#) Plus) (tokens cs)
      else if c = CHR ''-'' then map_option ((#) Minus) (tokens cs)
      else if is_digit c then
        (if c = CHR ''0'' \<and> takeWhile is_digit cs \<noteq> [] then None
         else map_option ((#) (Num (digits_val (c # takeWhile is_digit cs))))
                (tokens (dropWhile is_digit cs)))
      else None)"
  by pat_completeness auto
termination
  by (relation "measure length") (auto simp: less_Suc_eq_le length_dropWhile_le)

text \<open>A literal with the signs in front of it, and the tokens after it.\<close>

fun signed :: "token list \<Rightarrow> (int \<times> token list) option" where
  "signed [] = None"
| "signed (Num n # ts) = Some (int n, ts)"
| "signed (Plus # ts) = signed ts"
| "signed (Minus # ts) = map_option (\<lambda>(v, r). (- v, r)) (signed ts)"

lemma signed_shorter: "signed ts = Some (v, r) \<Longrightarrow> length r < length ts"
  by (induction ts arbitrary: v r rule: signed.induct) (auto split: prod.splits)

function sums :: "int \<Rightarrow> token list \<Rightarrow> int option" where
  "sums acc [] = Some acc"
| "sums acc (Num n # ts) = None"
| "sums acc (Plus # ts) =
     (case signed ts of None \<Rightarrow> None | Some (v, r) \<Rightarrow> sums (acc + v) r)"
| "sums acc (Minus # ts) =
     (case signed ts of None \<Rightarrow> None | Some (v, r) \<Rightarrow> sums (acc - v) r)"
  by pat_completeness auto
termination
  by (relation "measure (\<lambda>(acc, ts). length ts)") (auto dest!: signed_shorter)

definition arith_eval :: "string \<Rightarrow> int option" where
  "arith_eval s =
     (case tokens s of
        None \<Rightarrow> None
      | Some ts \<Rightarrow> (case signed ts of None \<Rightarrow> None | Some (v, r) \<Rightarrow> sums v r))"

text \<open>The builtins restricted to these texts; an evaluated value is an integer.\<close>

definition py :: "int builtins" where
  "py = \<lparr>py_int = int_literal, py_eval = arith_eval, py_add_str = (\<lambda>v n. Inr (str (v + n)))\<rparr>"

text \<open>
  Builtins that agree with \<open>int_literal\<close> and \<open>arith_eval\<close> where these are defined, as
  Python's do.
\<close>

definition arithmetic :: "'v builtins \<Rightarrow> bool" where
  "arithmetic B \<longleftrightarrow>
     (\<forall>s n. int_literal s = Some n \<longrightarrow> py_int B s = Some n) \<and>
     (\<forall>s n. arith_eval s = Some n \<longrightarrow>
        (\<exists>v. py_eval B s = Some v \<and> (\<forall>a. py_add_str B v a = Inr (str (n + a)))))"

section \<open>The words of the specification\<close>

text \<open>
  The three classes of the specification. \<open>OnF4\<close> reads only the first character of what
  \<open>testXorYabsrel\<close> returns and compares it with \<open>'A'\<close> and \<open>'R'\<close>; every other result,
  \<open>'C'\<close> with the axis name as well as the initial \<open>'-'\<close>, takes none of the rewriting
  branches.
\<close>

datatype classification = Absolute | Relative | Complex

definition class_of :: "string \<Rightarrow> classification" where
  "class_of cls =
     (case cls of
        [] \<Rightarrow> Complex
      | c # _ \<Rightarrow>
          if c = CHR ''A'' then Absolute else if c = CHR ''R'' then Relative else Complex)"

text \<open>
  "\<open>s\<close> contains \<open>v\<close>" and "\<open>s\<close> with the first occurrence of \<open>v\<close> replaced", written
  without \<open>find\<close> and slices.
\<close>

fun contains :: "string \<Rightarrow> string \<Rightarrow> bool" where
  "contains [] sub = (sub = [])"
| "contains (c # s) sub = (startswith (c # s) sub \<or> contains s sub)"

fun replace_first :: "string \<Rightarrow> string \<Rightarrow> string \<Rightarrow> string" where
  "replace_first [] sub new = (if sub = [] then new else [])"
| "replace_first (c # s) sub new =
     (if startswith (c # s) sub then new @ drop (length sub) (c # s)
      else c # replace_first s sub new)"

text \<open>Both classes of a located reference are strings with a first character.\<close>

definition named :: "located \<Rightarrow> bool" where
  "named l = (case l of (abs1, abs2, rest) \<Rightarrow> abs1 \<noteq> [] \<and> abs2 \<noteq> [])"

section \<open>The scanner on bracketed texts\<close>

text \<open>
  C7 (\<open>findpos\<close> returns the prefix before the first comma outside brackets and quotes).
  In \<open>''(a),b''\<close> the comma follows a closed bracket group, and \<open>findpos\<close> returns the
  whole text, comma included: the inner loop starts on the opening bracket that the
  outer loop has already counted and counts it again, so the closing bracket brings the
  level back to 1, not 0. A quote outside brackets is not looked at: in \<open>'a,b'\<close> the
  text is cut at the quoted comma.
\<close>

theorem findpos_closed_group:
  "findpos ''(a),b'' = ''(a),b'' \<and>
   findpos ([quote1] @ ''a,b'' @ [quote1]) = [quote1] @ ''a''"
  by code_simp

text \<open>
  C8 (\<open>findcolon\<close> gives, for each of the two texts independently, the offset of its
  first colon outside brackets and quotes, or \<open>-1\<close>). The colon of \<open>''(a):b''\<close> follows
  a closed bracket group and is not found, for the reason given at C7; and the result
  for the second text \<open>''(a))x:c''\<close> is 5 after an empty first text and \<open>-1\<close> after the
  first text \<open>''(''\<close>, since \<open>bracketlevel\<close> is not reset between the two. The claim's
  example holds: \<open>''(a:b)''\<close> gives \<open>-1\<close>.
\<close>

theorem findcolon_not_independent:
  "findcolon ([], ''(a))x:c'') = (-1, 5) \<and>
   findcolon (''('', ''(a))x:c'') = (-1, -1) \<and>
   findcolon ([], ''(a):b'') = (-1, -1) \<and>
   findcolon (''(a:b)'', ''(a:b)'') = (-1, -1)"
  by code_simp

section \<open>Exceptions and runs that do not end\<close>

text \<open>
  C3 (\<open>OnF4\<close> never raises on a malformed reference). With the cursor inside
  \<open>''S[3, 4''\<close>, a reference without its closing bracket, the search for \<open>]\<close> reads
  \<open>text[temp]\<close> before it tests \<open>temp < len(text)\<close> and raises \<open>IndexError\<close> at the end
  of the text, whatever the builtins and the anchor are.
\<close>

theorem OnF4_missing_bracket_raises:
  "OnF4 B ''S[3, 4'' 3 posCursor = Some (Inl IndexError)"
  by code_simp

text \<open>
  C4 (\<open>OnF4\<close> terminates on every input). On \<open>''aSS''\<close> the first-reference search
  never ends: the loop goes on while there is an \<open>S\<close> after \<open>posS\<close>, and each pass sets
  \<open>posS = text.find('S')\<close>, the first \<open>S\<close> of the text, which is rejected each time.
\<close>

lemma aSS_pass: "outside_pass B ''aSS'' 1 = Inr None"
  by code_simp

lemma aSS_more: "0 \<le> find (slice_from ''aSS'' 2) ''S''"
  by code_simp

lemma aSS_start: "0 \<le> find (slice_from ''aSS'' 0) ''S''"
  by code_simp

lemma aSS_first: "find ''aSS'' ''S'' = 1"
  by code_simp

lemma aSS_no_result: "outside_loop B s p = Some r \<Longrightarrow> \<not> (s = ''aSS'' \<and> p = 1)"
  apply (erule outside_loop.raw_induct
      [rotated, where P = "\<lambda>B s p r. \<not> (s = ''aSS'' \<and> p = 1)"])
  apply (rule notI)
  apply (insert aSS_more)
  apply (simp add: aSS_pass aSS_first)
  apply blast
  done

lemma aSS_loop: "outside_loop B ''aSS'' 1 = None"
  using aSS_no_result [of B "''aSS''" 1] by (cases "outside_loop B ''aSS'' 1") auto

theorem OnF4_first_search_never_ends:
  "OnF4 B ''aSS'' 0 posCursor = None"
  using aSS_start
  by (simp add: OnF4_def locate_def len_def outside_loop.simps [of B "''aSS''" "-1"]
      aSS_loop aSS_pass aSS_first)

section \<open>The classifier\<close>

lemma find_lower: "- 1 \<le> find s sub"
  by (induction s) (auto simp: Let_def)

lemma find_contains: "(0 \<le> find s sub) = contains s sub"
  using find_lower by (induction s) (auto simp: Let_def)

lemma startswith_length: "startswith s sub \<Longrightarrow> length sub \<le> length s"
  by (induction s sub rule: startswith.induct) auto

lemma find_upper: "contains s sub \<Longrightarrow> nat (find s sub) + length sub \<le> length s"
proof (induction s)
  case Nil
  then show ?case by simp
next
  case (Cons c s)
  then show ?case
    using startswith_length [of "c # s" sub] find_lower [of s sub]
    by (auto simp: Let_def find_contains [symmetric])
qed

lemma replace_first_find:
  "contains s sub \<Longrightarrow>
   replace_first s sub new
     = take (nat (find s sub)) s @ new @ drop (nat (find s sub) + length sub) s"
proof (induction s)
  case Nil
  then show ?case by simp
next
  case (Cons c s)
  show ?case
  proof (cases "startswith (c # s) sub")
    case True
    then show ?thesis by simp
  next
    case False
    with Cons.prems have c: "contains s sub" by simp
    then have "0 \<le> find s sub" by (simp add: find_contains)
    with False c Cons.IH show ?thesis
      by (simp add: Let_def nat_add_distrib)
  qed
qed

lemma zeroed_replace_first:
  assumes "contains s sub" and "length sub = 1"
  shows "zeroed sub s = replace_first s sub ''0''"
proof -
  have lo: "0 \<le> find s sub" using assms(1) by (simp add: find_contains)
  have hi: "nat (find s sub) + 1 \<le> length s" using find_upper [OF assms(1)] assms(2) by simp
  from lo hi have "bound s (find s sub) = nat (find s sub)"
    and "bound s (find s sub + 1) = nat (find s sub) + 1"
    by (auto simp: bound_def Let_def nat_add_distrib)
  then show ?thesis
    using assms by (simp add: zeroed_def slice_to_def slice_from_def replace_first_find)
qed

text \<open>
  C6. For an axis name \<open>X\<close> or \<open>Y\<close> and every text \<open>s\<close>, whatever the builtins are: the
  class is Absolute exactly when \<open>int(s)\<close> succeeds; otherwise it is Relative exactly
  when \<open>s\<close> contains the axis name and \<open>eval\<close> succeeds on \<open>s\<close> with the first occurrence
  of the axis name replaced by \<open>0\<close>; in every other case it is Complex (the result
  \<open>'C'\<close> with the axis name when \<open>eval\<close> raises, the result \<open>'-'\<close> when \<open>s\<close> does not contain
  the axis name).
\<close>

theorem testXorYabsrel_classes:
  assumes "xory = ''X'' \<or> xory = ''Y''"
  shows "class_of (testXorYabsrel B xory s) =
     (if py_int B s \<noteq> None then Absolute
      else if contains s xory \<and> py_eval B (replace_first s xory ''0'') \<noteq> None then Relative
      else Complex)"
proof -
  have "length xory = 1" using assms by auto
  then show ?thesis
    by (auto simp: testXorYabsrel_def class_of_def find_contains zeroed_replace_first
        split: option.splits)
qed

theorem testXorYabsrel_classes_witness:
  "(''Y'' = ''X'' \<or> ''Y'' = ''Y'') \<and>
   class_of (testXorYabsrel py ''Y'' '' Y - 2'') = Relative \<and>
   class_of (testXorYabsrel py ''Y'' '' 4'') = Absolute \<and>
   class_of (testXorYabsrel py ''Y'' ''a'') = Complex"
proof -
  have "py_int py '' Y - 2'' = None" and "contains '' Y - 2'' ''Y''"
    and "py_eval py (replace_first '' Y - 2'' ''Y'' ''0'') = Some (- 2)"
    and "py_int py '' 4'' = Some 4"
    and "py_int py ''a'' = None" and "\<not> contains ''a'' ''Y''"
    by code_simp+
  then show ?thesis
    using testXorYabsrel_classes [of "''Y''" py "'' Y - 2''"]
      testXorYabsrel_classes [of "''Y''" py "'' 4''"]
      testXorYabsrel_classes [of "''Y''" py "''a''"]
    by simp
qed

section \<open>The rewriter\<close>

lemma is_digit_digit: "d < 10 \<Longrightarrow> is_digit (digit d)"
  by (simp add: is_digit_def digit_def)

lemma digit_val: "d < 10 \<Longrightarrow> (of_char (digit d) :: nat) - 48 = d"
  by (simp add: digit_def)

lemma str_nat_nonempty: "str_nat n \<noteq> []"
  by (subst str_nat.simps) simp

lemma str_nat_digits: "list_all is_digit (str_nat n)"
proof (induction n rule: str_nat.induct)
  case (1 n)
  then show ?case
    by (subst str_nat.simps) (simp add: is_digit_digit)
qed

lemma digits_val_snoc: "digits_val (ds @ [c]) = 10 * digits_val ds + (of_char c - 48)"
  by (simp add: digits_val_def)

lemma digits_val_str_nat: "digits_val (str_nat n) = n"
proof (induction n rule: str_nat.induct)
  case (1 n)
  show ?case
  proof (cases "n < 10")
    case True
    then show ?thesis
      by (subst str_nat.simps) (simp add: digits_val_def digit_val)
  next
    case False
    with "1.IH" show ?thesis
      by (subst str_nat.simps) (simp add: digits_val_snoc digit_val)
  qed
qed

lemma str_nat_leading_zero: "str_nat n = CHR ''0'' # cs \<Longrightarrow> cs = []"
proof (induction n arbitrary: cs rule: str_nat.induct)
  case (1 n)
  show ?case
  proof (cases "n < 10")
    case True
    with "1.prems" show ?thesis
      by (subst (asm) str_nat.simps) simp
  next
    case False
    obtain c ds where split: "str_nat (n div 10) = c # ds"
      using str_nat_nonempty [of "n div 10"] by (cases "str_nat (n div 10)") auto
    from False "1.prems" split have "c = CHR ''0''"
      by (subst (asm) str_nat.simps) simp
    with "1.IH" False split have "ds = []" by simp
    with split \<open>c = CHR ''0''\<close> have "digits_val (str_nat (n div 10)) = 0"
      by (simp add: digits_val_def)
    with False show ?thesis
      by (simp add: digits_val_str_nat)
  qed
qed

lemma digit_not_symbol:
  "is_digit c \<Longrightarrow>
   c \<noteq> CHR '' '' \<and> c \<noteq> CHR 0x09 \<and> c \<noteq> CHR ''+'' \<and> c \<noteq> CHR ''-'' \<and> \<not> is_space c"
  by (auto simp: is_digit_def is_space_def)

lemma takeWhile_all: "list_all P xs \<Longrightarrow> takeWhile P xs = xs"
  by (induction xs) auto

lemma dropWhile_all: "list_all P xs \<Longrightarrow> dropWhile P xs = []"
  by (induction xs) auto

lemma tokens_literal:
  assumes "str_nat n = c # cs"
  shows "tokens (str_nat n) = Some [Num n]"
proof -
  have digits: "is_digit c" "list_all is_digit cs"
    using str_nat_digits [of n] assms by simp_all
  have zero: "\<not> (c = CHR ''0'' \<and> takeWhile is_digit cs \<noteq> [])"
    using str_nat_leading_zero [of n cs] assms by auto
  have val: "digits_val (c # cs) = n"
    using digits_val_str_nat [of n] assms by simp
  show ?thesis
    using digits zero val digit_not_symbol [of c]
    by (simp add: assms takeWhile_all dropWhile_all)
qed

lemma tokens_str_nat: "tokens (str_nat n) = Some [Num n]"
  using tokens_literal [of n] str_nat_nonempty [of n] by (cases "str_nat n") auto

lemma arith_eval_plus: "arith_eval (''0 + '' @ str_nat d) = Some (int d)"
  by (simp add: arith_eval_def tokens_str_nat is_digit_def digits_val_def)

lemma arith_eval_minus: "arith_eval (''0 - '' @ str_nat d) = Some (- int d)"
  by (simp add: arith_eval_def tokens_str_nat is_digit_def digits_val_def)

lemma dropWhile_hd: "xs \<noteq> [] \<Longrightarrow> \<not> P (hd xs) \<Longrightarrow> dropWhile P xs = xs"
  by (cases xs) auto

lemma strip_id:
  "s \<noteq> [] \<Longrightarrow> \<not> is_space (hd s) \<Longrightarrow> \<not> is_space (last s) \<Longrightarrow> strip s = s"
  by (simp add: strip_def dropWhile_hd hd_rev)

lemma last_str_nat: "is_digit (last (str_nat n))"
  using str_nat_digits [of n] str_nat_nonempty [of n] by (simp add: list_all_iff)

lemma hd_str_nat: "is_digit (hd (str_nat n))"
  using str_nat_digits [of n] str_nat_nonempty [of n] by (simp add: list_all_iff)

lemma unsigned_str_nat: "unsigned_literal (str_nat n) = Some n"
  by (simp add: unsigned_literal_def str_nat_nonempty str_nat_digits digits_val_str_nat)

lemma int_literal_str: "int_literal (str n) = Some n"
proof (cases "n < 0")
  case True
  have "strip (CHR ''-'' # str_nat (nat (- n))) = CHR ''-'' # str_nat (nat (- n))"
    using last_str_nat [of "nat (- n)"] digit_not_symbol str_nat_nonempty [of "nat (- n)"]
    by (intro strip_id) (auto simp: is_space_def)
  with True show ?thesis
    by (simp add: int_literal_def str_def unsigned_str_nat)
next
  case False
  obtain c cs where split: "str_nat (nat n) = c # cs"
    using str_nat_nonempty [of "nat n"] by (cases "str_nat (nat n)") auto
  have "strip (str_nat (nat n)) = str_nat (nat n)"
    using last_str_nat [of "nat n"] hd_str_nat [of "nat n"] digit_not_symbol
      str_nat_nonempty [of "nat n"]
    by (intro strip_id) auto
  moreover have "c \<noteq> CHR ''-'' \<and> c \<noteq> CHR ''+''"
    using hd_str_nat [of "nat n"] split digit_not_symbol [of c] by simp
  moreover have "unsigned_literal (c # cs) = Some (nat n)"
    using unsigned_str_nat [of "nat n"] split by simp
  ultimately show ?thesis
    using False split by (simp add: int_literal_def str_def)
qed

lemma zeroed_axis:
  "xory = ''X'' \<or> xory = ''Y'' \<Longrightarrow> zeroed xory (xory @ rest) = ''0'' @ rest"
  by (auto simp: zeroed_def slice_to_def slice_from_def bound_def)

lemma arithmetic_py: "arithmetic py"
  by (simp add: arithmetic_def py_def)

text \<open>
  C9. For every integer \<open>n\<close>, axis name \<open>X\<close> or \<open>Y\<close> and anchor \<open>posCursor\<close>, with builtins
  that read decimal literals and add and subtract them as Python's do:
  \<open>makeXorYrel\<close> on \<open>str(n)\<close> returns a text on which \<open>makeXorYabs\<close>, with the same axis
  and anchor, returns \<open>str(n)\<close>; neither call raises.
\<close>

theorem makeXorYabs_makeXorYrel:
  assumes "arithmetic B" and "xory = ''X'' \<or> xory = ''Y''"
  shows "then_do (makeXorYrel B xory (str n) posCursor)
           (\<lambda>rel. makeXorYabs B xory rel posCursor) = Inr (str n)"
proof -
  define a where "a = (if xory = ''X'' then fst posCursor else snd posCursor)"
  have parse: "py_int B (str n) = Some n"
    using assms(1) int_literal_str by (simp add: arithmetic_def)
  have eval: "\<exists>v. py_eval B s = Some v \<and> py_add_str B v a = Inr (str (m + a))"
    if "arith_eval s = Some m" for s m
    using assms(1) that unfolding arithmetic_def by blast
  show ?thesis
  proof (cases "n - a > 0")
    case True
    then have "str (n - a) = str_nat (nat (n - a))" by (simp add: str_def)
    moreover obtain v where "py_eval B (''0 + '' @ str_nat (nat (n - a))) = Some v"
      and "py_add_str B v a = Inr (str (int (nat (n - a)) + a))"
      using eval [OF arith_eval_plus] by blast
    ultimately show ?thesis
      using True parse assms(2)
      by (auto simp: then_do_def makeXorYrel_def makeXorYabs_def a_def
          zeroed_axis [of xory, simplified] simp flip: a_def)
  next
    case False
    then have "str (- (n - a)) = str_nat (nat (a - n))" by (simp add: str_def)
    moreover obtain v where "py_eval B (''0 - '' @ str_nat (nat (a - n))) = Some v"
      and "py_add_str B v a = Inr (str (- int (nat (a - n)) + a))"
      using eval [OF arith_eval_minus] by blast
    ultimately show ?thesis
      using False parse assms(2)
      by (auto simp: then_do_def makeXorYrel_def makeXorYabs_def a_def
          zeroed_axis [of xory, simplified] simp flip: a_def)
  qed
qed

theorem makeXorYabs_makeXorYrel_witness:
  "arithmetic py \<and> (''X'' = ''X'' \<or> ''X'' = ''Y'') \<and>
   makeXorYrel py ''X'' (str 3) (5, 9) = Inr ''X - 2'' \<and>
   then_do (makeXorYrel py ''X'' (str 3) (5, 9)) (\<lambda>rel. makeXorYabs py ''X'' rel (5, 9))
     = Inr (str 3)"
proof -
  have "makeXorYrel py ''X'' (str 3) (5, 9) = Inr ''X - 2''"
    by code_simp
  then show ?thesis
    using makeXorYabs_makeXorYrel [OF arithmetic_py, of "''X''" 3 "(5, 9)"] arithmetic_py
    by simp
qed

section \<open>What \<open>OnF4\<close> returns\<close>

lemma testXorYabsrel_nonempty: "testXorYabsrel B xory s \<noteq> []"
  by (simp add: testXorYabsrel_def split: option.splits)

lemma inside_found_named: "named (inside_found B s posins posX temp)"
  by (simp add: inside_found_def named_def Let_def testXorYabsrel_nonempty)

lemma inside_found_eq_named: "inside_found B s posins posX temp = l \<Longrightarrow> named l"
  using inside_found_named by auto

lemma outside_found_named: "named (outside_found B s posX)"
  by (simp add: outside_found_def named_def Let_def testXorYabsrel_nonempty)

lemma outside_pass_named: "outside_pass B s posS = Inr (Some l) \<Longrightarrow> named l"
  by (auto simp: outside_pass_def outside_found_named split: sum.splits if_splits bool.splits)

lemma inside_loop_named: "inside_loop B s posins posX = Some (Inr (Some l)) \<Longrightarrow> named l"
  apply (erule inside_loop.raw_induct
      [rotated, where P = "\<lambda>B s posins posX r. \<forall>l. r = Inr (Some l) \<longrightarrow> named l", rule_format])
   apply (auto simp: Let_def split: if_splits sum.splits dest: inside_found_eq_named)
  done

lemma outside_loop_named: "outside_loop B s posS = Some (Inr (Some l)) \<Longrightarrow> named l"
  apply (erule outside_loop.raw_induct
      [rotated, where P = "\<lambda>B s posS r. \<forall>l. r = Inr (Some l) \<longrightarrow> named l", rule_format])
   apply (auto simp: Let_def dest: outside_pass_named split: if_splits sum.splits option.splits)
  done

lemma locate_named: "locate B s posins = Some (Inr (Some (foundposin, l))) \<Longrightarrow> named l"
  by (auto simp: locate_def dest: inside_loop_named outside_loop_named
      split: if_splits sum.splits option.splits)

lemma idx_first: "cls \<noteq> [] \<Longrightarrow> idx cls 0 = Inr (hd cls)"
  by (cases cls) (simp_all add: idx_def)

lemma rewrite_complex:
  assumes "abs1 \<noteq> []" and "abs2 \<noteq> []"
    and "class_of abs1 = Complex" and "class_of abs2 = Complex"
  shows "rewrite B s posCursor (abs1, abs2, str1, str2, posX, posY) = Inr s"
proof -
  from assms have "hd abs1 \<noteq> CHR ''A''" "hd abs1 \<noteq> CHR ''R''"
    "hd abs2 \<noteq> CHR ''A''" "hd abs2 \<noteq> CHR ''R''"
    by (auto simp: class_of_def split: list.splits if_splits)
  with assms(1,2) show ?thesis
    by (simp add: rewrite_def then_do_def idx_first)
qed

text \<open>
  C5, as the claim states it: when both located components are Complex, \<open>OnF4\<close> returns
  the "no change" sentinel and leaves the cursor offset as it was. In \<open>S[X X,Y Y]\<close> with
  the cursor at offset 3 both components contain their axis name and do not evaluate
  (classes \<open>'CX'\<close> and \<open>'CY'\<close>); \<open>OnF4\<close> returns the pair of the unchanged text and the
  offset 2, not \<open>None\<close>.
\<close>

theorem OnF4_complex_returns_pair:
  "testXorYabsrel py ''X'' ''X X'' = ''CX'' \<and> testXorYabsrel py ''Y'' ''Y Y'' = ''CY'' \<and>
   OnF4 py ''S[X X,Y Y]'' 3 (0, 0) = Some (Inr (ReturnsPair ''S[X X,Y Y]'' 2)) \<and>
   OnF4 py ''S[X X,Y Y]'' 3 (0, 0) \<noteq> Some (Inr ReturnsNone)"
  by code_simp

text \<open>
  C5, amended. \<open>OnF4\<close> returns \<open>None\<close> exactly when both searches end without a located
  reference. When a reference is located and both its components are Complex, \<open>OnF4\<close>
  returns the input text unchanged, paired with the offset of the first component if
  the cursor-inside search located it and with 0 if the first-reference search did.
\<close>

theorem OnF4_nothing_to_toggle:
  "(OnF4 B s posins posCursor = Some (Inr ReturnsNone))
     = (locate B s posins = Some (Inr None)) \<and>
   (locate B s posins = Some (Inr (Some (foundposin, abs1, abs2, str1, str2, posX, posY)))
      \<and> class_of abs1 = Complex \<and> class_of abs2 = Complex \<longrightarrow>
    OnF4 B s posins posCursor = Some (Inr (ReturnsPair s (if foundposin then posX else 0))))"
proof (intro conjI impI)
  show "(OnF4 B s posins posCursor = Some (Inr ReturnsNone))
          = (locate B s posins = Some (Inr None))"
    by (auto simp: OnF4_def finish_def then_do_def split: option.splits sum.splits prod.splits)
next
  assume a:
    "locate B s posins = Some (Inr (Some (foundposin, abs1, abs2, str1, str2, posX, posY)))
      \<and> class_of abs1 = Complex \<and> class_of abs2 = Complex"
  then have "abs1 \<noteq> [] \<and> abs2 \<noteq> []"
    using locate_named [of B s posins foundposin "(abs1, abs2, str1, str2, posX, posY)"]
    by (simp add: named_def)
  with a show
    "OnF4 B s posins posCursor = Some (Inr (ReturnsPair s (if foundposin then posX else 0)))"
    by (simp add: OnF4_def finish_def then_do_def rewrite_complex)
qed

theorem OnF4_nothing_to_toggle_witness:
  "locate py ''hello'' 3 = Some (Inr None) \<and>
   OnF4 py ''hello'' 3 (0, 0) = Some (Inr ReturnsNone) \<and>
   locate py ''S[a,b]'' 0
     = Some (Inr (Some (False, ''-'', ''-'', ''a'', ''b]'', 2, 4))) \<and>
   class_of ''-'' = Complex \<and>
   OnF4 py ''S[a,b]'' 0 (0, 0) = Some (Inr (ReturnsPair ''S[a,b]'' 0)) \<and>
   locate py ''S[X X,Y Y]'' 3
     = Some (Inr (Some (True, ''CX'', ''CY'', ''X X'', ''Y Y'', 2, 6))) \<and>
   class_of ''CX'' = Complex \<and> class_of ''CY'' = Complex \<and>
   OnF4 py ''S[X X,Y Y]'' 3 (1, 1) = Some (Inr (ReturnsPair ''S[X X,Y Y]'' 2))"
proof -
  have none: "locate py ''hello'' 3 = Some (Inr None)"
    by code_simp
  have outside: "locate py ''S[a,b]'' 0
      = Some (Inr (Some (False, ''-'', ''-'', ''a'', ''b]'', 2, 4)))"
    by code_simp
  have inside: "locate py ''S[X X,Y Y]'' 3
      = Some (Inr (Some (True, ''CX'', ''CY'', ''X X'', ''Y Y'', 2, 6)))"
    by code_simp
  have classes: "class_of ''-'' = Complex" "class_of ''CX'' = Complex"
    "class_of ''CY'' = Complex"
    by code_simp+
  show ?thesis
    using none outside inside classes
      OnF4_nothing_to_toggle [where B = py and s = "''hello''" and posins = 3
        and posCursor = "(0, 0)"]
      OnF4_nothing_to_toggle [where B = py and s = "''S[a,b]''" and posins = 0
        and posCursor = "(0, 0)" and foundposin = False and ?abs1.0 = "''-''"
        and ?abs2.0 = "''-''" and ?str1.0 = "''a''" and ?str2.0 = "''b]''"
        and posX = 2 and posY = 4]
      OnF4_nothing_to_toggle [where B = py and s = "''S[X X,Y Y]''" and posins = 3
        and posCursor = "(1, 1)" and foundposin = True and ?abs1.0 = "''CX''"
        and ?abs2.0 = "''CY''" and ?str1.0 = "''X X''" and ?str2.0 = "''Y Y''"
        and posX = 2 and posY = 6]
    by simp
qed

lemma locate_at_edge:
  assumes "posins \<le> 1 \<or> len s \<le> posins"
  shows "locate B s posins =
           (case outside_loop B s (- 1) of
              None \<Rightarrow> None
            | Some (Inl e) \<Rightarrow> Some (Inl e)
            | Some (Inr (Some l)) \<Rightarrow> Some (Inr (Some (False, l)))
            | Some (Inr None) \<Rightarrow> Some (Inr None))"
proof -
  from assms have outside: "(posins > 1 \<and> posins < len s) = False" by auto
  show ?thesis
    by (simp only: locate_def outside if_False option.case sum.case)
qed

lemma finish_outside:
  "finish B s posCursor False l = Inr (ReturnsPair s' pos) \<Longrightarrow> pos = 0"
  by (cases l) (auto simp: finish_def then_do_def split: sum.splits)

text \<open>
  C10. With a cursor offset that is at most 1 or at least the length of the text, the
  search is the first-reference search alone, so the result is the one for cursor
  offset 0 and a returned pair carries the offset 0. In \<open>S[3,4]\<close> the offsets 1 and 6
  lie within or at the end of the reference, and the result is that of the
  first-reference search; at offset 2 it is that of the cursor-inside search.
\<close>

theorem OnF4_cursor_at_edge:
  assumes "posins \<le> 1 \<or> len s \<le> posins"
  shows "locate B s posins =
           (case outside_loop B s (- 1) of
              None \<Rightarrow> None
            | Some (Inl e) \<Rightarrow> Some (Inl e)
            | Some (Inr (Some l)) \<Rightarrow> Some (Inr (Some (False, l)))
            | Some (Inr None) \<Rightarrow> Some (Inr None))
         \<and> OnF4 B s posins posCursor = OnF4 B s 0 posCursor
         \<and> (OnF4 B s posins posCursor = Some (Inr (ReturnsPair s' pos)) \<longrightarrow> pos = 0)"
proof (intro conjI impI)
  show "locate B s posins =
           (case outside_loop B s (- 1) of
              None \<Rightarrow> None
            | Some (Inl e) \<Rightarrow> Some (Inl e)
            | Some (Inr (Some l)) \<Rightarrow> Some (Inr (Some (False, l)))
            | Some (Inr None) \<Rightarrow> Some (Inr None))"
    using assms by (rule locate_at_edge)
next
  have "locate B s posins = locate B s 0"
    using locate_at_edge [OF assms, of B] locate_at_edge [of 0 s B] by simp
  then show "OnF4 B s posins posCursor = OnF4 B s 0 posCursor"
    by (simp only: OnF4_def)
next
  assume r: "OnF4 B s posins posCursor = Some (Inr (ReturnsPair s' pos))"
  show "pos = 0"
  proof (cases "outside_loop B s (- 1)")
    case None
    with r show ?thesis
      by (simp add: OnF4_def locate_at_edge [OF assms])
  next
    case (Some o1)
    show ?thesis
    proof (cases o1)
      case (Inl e)
      with Some r show ?thesis
        by (simp add: OnF4_def locate_at_edge [OF assms])
    next
      case (Inr o2)
      show ?thesis
      proof (cases o2)
        case None
        with Some Inr r show ?thesis
          by (simp add: OnF4_def locate_at_edge [OF assms])
      next
        case found: (Some l)
        with Some Inr r have "finish B s posCursor False l = Inr (ReturnsPair s' pos)"
          by (simp add: OnF4_def locate_at_edge [OF assms])
        then show ?thesis by (rule finish_outside)
      qed
    qed
  qed
qed

theorem OnF4_cursor_at_edge_witness:
  "((1 :: int) \<le> 1 \<or> len ''S[3,4]'' \<le> 1) \<and>
   OnF4 py ''S[3,4]'' 1 (0, 0) = Some (Inr (ReturnsPair ''S[X + 3,4]'' 0)) \<and>
   ((6 :: int) \<le> 1 \<or> len ''S[3,4]'' \<le> 6) \<and>
   OnF4 py ''S[3,4]'' 6 (0, 0) = Some (Inr (ReturnsPair ''S[X + 3,4]'' 0)) \<and>
   OnF4 py ''S[3,4]'' 2 (0, 0) = Some (Inr (ReturnsPair ''S[X + 3,Y + 4]'' 2))"
proof -
  have first: "OnF4 py ''S[3,4]'' 0 (0, 0) = Some (Inr (ReturnsPair ''S[X + 3,4]'' 0))"
    by code_simp
  have inside: "OnF4 py ''S[3,4]'' 2 (0, 0) = Some (Inr (ReturnsPair ''S[X + 3,Y + 4]'' 2))"
    by code_simp
  have one: "(1 :: int) \<le> 1 \<or> len ''S[3,4]'' \<le> 1"
    by simp
  have six: "(6 :: int) \<le> 1 \<or> len ''S[3,4]'' \<le> 6"
    by (simp add: len_def)
  have "OnF4 py ''S[3,4]'' 1 (0, 0) = OnF4 py ''S[3,4]'' 0 (0, 0)"
    using OnF4_cursor_at_edge [OF one] by blast
  moreover have "OnF4 py ''S[3,4]'' 6 (0, 0) = OnF4 py ''S[3,4]'' 0 (0, 0)"
    using OnF4_cursor_at_edge [OF six] by blast
  ultimately show ?thesis
    using first inside one six by (simp only: simp_thms)
qed

section \<open>The scenario \<open>S[3, 4]\<close> and the cycle\<close>

text \<open>
  C2, as the claim states it: for \<open>S[3, 4]\<close>, anchor (0,0) and every cursor offset from
  0 to 7, \<open>OnF4\<close> rewrites the text to \<open>S[X - 3, Y - 4]\<close>. With the cursor at offset 4
  the new text is \<open>S[X + 3,Y + 4]\<close>: both differences are positive, and the blank after
  the comma is part of the second component and is replaced with it. With the cursor
  at offset 0 the new text is \<open>S[X + 3, 4]\<close>.
\<close>

theorem OnF4_S34_as_claimed:
  "OnF4 py ''S[3, 4]'' 4 (0, 0) = Some (Inr (ReturnsPair ''S[X + 3,Y + 4]'' 2)) \<and>
   ''S[X + 3,Y + 4]'' \<noteq> ''S[X - 3, Y - 4]'' \<and>
   OnF4 py ''S[3, 4]'' 0 (0, 0) = Some (Inr (ReturnsPair ''S[X + 3, 4]'' 0)) \<and>
   ''S[X + 3, 4]'' \<noteq> ''S[X - 3, Y - 4]''"
  by code_simp

lemma S34_located:
  "locate py ''S[3, 4]'' 2 = Some (Inr (Some (True, ''AX'', ''AY'', ''3'', '' 4'', 2, 4)))"
  "locate py ''S[3, 4]'' 3 = Some (Inr (Some (True, ''AX'', ''AY'', ''3'', '' 4'', 2, 4)))"
  "locate py ''S[3, 4]'' 4 = Some (Inr (Some (True, ''AX'', ''AY'', ''3'', '' 4'', 2, 4)))"
  "locate py ''S[3, 4]'' 5 = Some (Inr (Some (True, ''AX'', ''AY'', ''3'', '' 4'', 2, 4)))"
  "locate py ''S[3, 4]'' 6 = Some (Inr (Some (True, ''AX'', ''AY'', ''3'', '' 4'', 2, 4)))"
  by code_simp+

lemma S34_finish:
  "finish py ''S[3, 4]'' (0, 0) True (''AX'', ''AY'', ''3'', '' 4'', 2, 4)
     = Inr (ReturnsPair ''S[X + 3,Y + 4]'' 2)"
  by code_simp

text \<open>
  C2, amended. For \<open>S[3, 4]\<close>, anchor (0,0) and every cursor offset from 2 to 6, the
  cursor-inside search locates the components \<open>3\<close> and \<open> 4\<close> (with its blank), both
  Absolute, and \<open>OnF4\<close> returns the text \<open>S[X + 3,Y + 4]\<close> with the cursor offset 2.
\<close>

theorem OnF4_S34_inside:
  assumes "2 \<le> posins" and "posins \<le> 6"
  shows "locate py ''S[3, 4]'' posins
           = Some (Inr (Some (True, ''AX'', ''AY'', ''3'', '' 4'', 2, 4))) \<and>
         class_of ''AX'' = Absolute \<and> class_of ''AY'' = Absolute \<and>
         OnF4 py ''S[3, 4]'' posins (0, 0) = Some (Inr (ReturnsPair ''S[X + 3,Y + 4]'' 2))"
proof -
  from assms have "posins = 2 \<or> posins = 3 \<or> posins = 4 \<or> posins = 5 \<or> posins = 6"
    by arith
  then have "locate py ''S[3, 4]'' posins
      = Some (Inr (Some (True, ''AX'', ''AY'', ''3'', '' 4'', 2, 4)))"
    using S34_located by blast
  moreover have "class_of ''AX'' = Absolute" and "class_of ''AY'' = Absolute"
    by (simp_all add: class_of_def)
  ultimately show ?thesis
    by (simp add: OnF4_def S34_finish)
qed

theorem OnF4_S34_inside_witness:
  "(2 :: int) \<le> 5 \<and> (5 :: int) \<le> 6 \<and>
   OnF4 py ''S[3, 4]'' 5 (0, 0) = Some (Inr (ReturnsPair ''S[X + 3,Y + 4]'' 2))"
  using OnF4_S34_inside [of 5] by simp

text \<open>
  The cycle of C1 from inside the reference: four calls, each on the text and cursor
  offset that the call before returned, lead from \<open>S[3,4]\<close> back to \<open>S[3,4]\<close>.
\<close>

lemma OnF4_inside_cycle:
  "OnF4 py ''S[3,4]'' 3 (0, 0) = Some (Inr (ReturnsPair ''S[X + 3,Y + 4]'' 2))"
  "OnF4 py ''S[X + 3,Y + 4]'' 2 (0, 0) = Some (Inr (ReturnsPair ''S[X + 3,4]'' 2))"
  "OnF4 py ''S[X + 3,4]'' 2 (0, 0) = Some (Inr (ReturnsPair ''S[3,Y + 4]'' 2))"
  "OnF4 py ''S[3,Y + 4]'' 2 (0, 0) = Some (Inr (ReturnsPair ''S[3,4]'' 2))"
  by code_simp+

text \<open>
  C1 (four calls of \<open>OnF4\<close> on a text with a reference whose components are both Absolute
  pass through (A,A), (R,R), (R,A), (A,R) and come back to (A,A)). In \<open>S[3,4]\<close> both
  components are Absolute. With the cursor at offset 0 the first-reference search takes
  as second component the text up to the next comma or the end of the text, \<open>4]\<close>,
  closing bracket included, which has no class; only the first component is rewritten.
  The first call returns \<open>S[X + 3,4]\<close>, whose components are Relative and Absolute, and
  the second call returns \<open>S[3,4]\<close> again: the calls alternate between two texts and
  never reach (R,R). The cursor-inside search cuts the components at the closing bracket.
\<close>

theorem OnF4_outside_no_cycle:
  "class_of (testXorYabsrel py ''X'' ''3'') = Absolute \<and>
   class_of (testXorYabsrel py ''Y'' ''4'') = Absolute \<and>
   locate py ''S[3,4]'' 0 = Some (Inr (Some (False, ''AX'', ''-'', ''3'', ''4]'', 2, 4))) \<and>
   OnF4 py ''S[3,4]'' 0 (0, 0) = Some (Inr (ReturnsPair ''S[X + 3,4]'' 0)) \<and>
   class_of (testXorYabsrel py ''X'' ''X + 3'') = Relative \<and>
   OnF4 py ''S[X + 3,4]'' 0 (0, 0) = Some (Inr (ReturnsPair ''S[3,4]'' 0))"
  by code_simp

end
